theory Spec2Isabelle
  imports Complex_Main
begin

section \<open>JavaScript values\<close>

text \<open>
  The handlers of \<^verbatim>\<open>api.js\<close> move values between the request, the two data-access
  modules and the response without looking inside them. The values are modelled as a
  datatype: the JSON shapes, \<^verbatim>\<open>undefined\<close>, and error objects (which carry a message).

  A number is an IEEE 754 binary64 value. A finite non-zero value, and the positive zero,
  is held as the rational it denotes; the negative zero, the two infinities and the
  not-a-number value are constructors of their own.

  A string is a list of code units; the model covers the code units below 256. An
  object is the list of its own properties in order, read at the first pair with the key.
\<close>

datatype jsnum = NaN | PosInf | NegInf | NegZero | Fin rat

datatype jsval =
    JUndefined
  | JNull
  | JBool bool
  | JNum jsnum
  | JStr string
  | JArr "jsval list"
  | JObj "(string \<times> jsval) list"
  | JError string

text \<open>\<^verbatim>\<open>ToBoolean\<close>, which \<^verbatim>\<open>!product\<close> applies: the falsy values are \<^verbatim>\<open>undefined\<close>,
  \<^verbatim>\<open>null\<close>, \<^verbatim>\<open>false\<close>, both zeros, \<^verbatim>\<open>NaN\<close> and the empty string.\<close>

fun truthy :: "jsval \<Rightarrow> bool" where
  "truthy JUndefined = False"
| "truthy JNull = False"
| "truthy (JBool b) = b"
| "truthy (JNum n) = (n \<noteq> NaN \<and> n \<noteq> NegZero \<and> n \<noteq> Fin 0)"
| "truthy (JStr s) = (s \<noteq> [])"
| "truthy (JArr xs) = True"
| "truthy (JObj kvs) = True"
| "truthy (JError m) = True"

section \<open>The built-in \<^verbatim>\<open>Number\<close> on strings\<close>

text \<open>
  \<^verbatim>\<open>Number(s)\<close> on a string is ECMAScript's \<^verbatim>\<open>StringToNumber\<close>: white space is
  stripped at both ends, the empty string is \<open>+0\<close>, a string of the grammar
  \<^verbatim>\<open>StrNumericLiteral\<close> is its mathematical value rounded to binary64, and every other
  string is \<^verbatim>\<open>NaN\<close>. The definitions are named after the grammar's productions.
  Where ECMAScript lets an implementation round a literal of more than twenty significant
  digits in more than one way, the model takes the correctly rounded value.
\<close>

definition StrWhiteSpaceChar :: "char \<Rightarrow> bool" where
  "StrWhiteSpaceChar c = (of_char c \<in> {9, 10, 11, 12, 13, 32, 160 :: nat})"

definition trim :: "string \<Rightarrow> string" where
  "trim s = rev (dropWhile StrWhiteSpaceChar (rev (dropWhile StrWhiteSpaceChar s)))"

definition digit_value :: "char \<Rightarrow> int option" where
  "digit_value c =
     (let n = (of_char c :: int) in
      if 48 \<le> n \<and> n \<le> 57 then Some (n - 48)
      else if 97 \<le> n \<and> n \<le> 102 then Some (n - 87)
      else if 65 \<le> n \<and> n \<le> 70 then Some (n - 55)
      else None)"

fun radix_value :: "int \<Rightarrow> int \<Rightarrow> string \<Rightarrow> int option" where
  "radix_value r acc [] = Some acc"
| "radix_value r acc (c # cs) =
     (case digit_value c of
        None \<Rightarrow> None
      | Some d \<Rightarrow> if d < r then radix_value r (acc * r + d) cs else None)"

definition Digits :: "int \<Rightarrow> string \<Rightarrow> int option" where
  "Digits r s = (if s = [] then None else radix_value r 0 s)"

definition DecimalDigit :: "char \<Rightarrow> bool" where
  "DecimalDigit c = (48 \<le> (of_char c :: nat) \<and> (of_char c :: nat) \<le> 57)"

definition pow_int :: "rat \<Rightarrow> int \<Rightarrow> rat" where
  "pow_int b k = (if 0 \<le> k then b ^ nat k else 1 / b ^ nat (- k))"

definition SignedInteger :: "string \<Rightarrow> int option" where
  "SignedInteger s =
     (if s \<noteq> [] \<and> hd s = CHR ''+'' then Digits 10 (tl s)
      else if s \<noteq> [] \<and> hd s = CHR ''-'' then map_option uminus (Digits 10 (tl s))
      else Digits 10 s)"

definition ExponentPart :: "string \<Rightarrow> int option" where
  "ExponentPart s =
     (if s = [] then Some 0
      else if hd s = CHR ''e'' \<or> hd s = CHR ''E'' then SignedInteger (tl s)
      else None)"

datatype mv = MVInfinity | MV rat

definition StrUnsignedDecimalLiteral :: "string \<Rightarrow> mv option" where
  "StrUnsignedDecimalLiteral s =
     (if s = ''Infinity'' then Some MVInfinity
      else
        let ip = takeWhile DecimalDigit s;
            r1 = dropWhile DecimalDigit s;
            dot = (r1 \<noteq> [] \<and> hd r1 = CHR ''.'');
            fp = (if dot then takeWhile DecimalDigit (tl r1) else []);
            r2 = (if dot then dropWhile DecimalDigit (tl r1) else r1)
        in if ip = [] \<and> fp = [] then None
           else case (radix_value 10 0 (ip @ fp), ExponentPart r2) of
                  (Some n, Some e) \<Rightarrow> Some (MV (of_int n * pow_int 10 (e - int (length fp))))
                | _ \<Rightarrow> None)"

definition NonDecimalIntegerLiteral :: "string \<Rightarrow> int option" where
  "NonDecimalIntegerLiteral s =
     (case s of
        z # x # ds \<Rightarrow>
          if z \<noteq> CHR ''0'' then None
          else if x = CHR ''x'' \<or> x = CHR ''X'' then Digits 16 ds
          else if x = CHR ''o'' \<or> x = CHR ''O'' then Digits 8 ds
          else if x = CHR ''b'' \<or> x = CHR ''B'' then Digits 2 ds
          else None
      | _ \<Rightarrow> None)"

text \<open>
  Rounding a non-negative rational to binary64, to nearest with ties to even: the unit in
  the last place is \<open>2 ^ p\<close> with \<open>p = max (e - 52) (-1074)\<close> for \<open>2 ^ e \<le> q < 2 ^ (e + 1)\<close>;
  a result of \<open>2 ^ 1024\<close> or more is infinite. The sign is kept apart so that a negative
  literal of value zero, or one that rounds to zero, is the negative zero.
\<close>

function log2floor :: "int \<Rightarrow> int" where
  "log2floor n = (if n < 2 then 0 else 1 + log2floor (n div 2))"
  by pat_completeness auto
termination
  by (relation "measure nat") auto

declare log2floor.simps [simp del]

definition floor_log2 :: "rat \<Rightarrow> int" where
  "floor_log2 q =
     (let (a, b) = quotient_of q;
          d = log2floor a - log2floor b
      in if pow_int 2 d \<le> q then d else d - 1)"

definition round_half_even :: "rat \<Rightarrow> int" where
  "round_half_even m =
     (let f = \<lfloor>m\<rfloor>; r = m - of_int f
      in if r < 1 / 2 then f
         else if 1 / 2 < r then f + 1
         else if even f then f else f + 1)"

definition Number_value :: "bool \<Rightarrow> rat \<Rightarrow> jsnum" where
  "Number_value neg q =
     (if q = 0 then (if neg then NegZero else Fin 0)
      else
        let e = floor_log2 q;
            p = max (e - 52) (- 1074);
            r = of_int (round_half_even (q / pow_int 2 p)) * pow_int 2 p
        in if r = 0 then (if neg then NegZero else Fin 0)
           else if pow_int 2 1024 \<le> r then (if neg then NegInf else PosInf)
           else Fin (if neg then - r else r))"

definition StringToNumber :: "string \<Rightarrow> jsnum" where
  "StringToNumber str =
     (let s = trim str in
      if s = [] then Fin 0
      else case NonDecimalIntegerLiteral s of
             Some n \<Rightarrow> Number_value False (of_int n)
           | None \<Rightarrow>
               let neg = (hd s = CHR ''-'');
                   u = (if hd s = CHR ''+'' \<or> hd s = CHR ''-'' then tl s else s)
               in (case StrUnsignedDecimalLiteral u of
                     None \<Rightarrow> NaN
                   | Some MVInfinity \<Rightarrow> if neg then NegInf else PosInf
                   | Some (MV q) \<Rightarrow> Number_value neg q))"

section \<open>Requests\<close>

text \<open>
  A handler reads three fields of the request object. \<^verbatim>\<open>req.query\<close> is the object
  the query-string parser builds from the URL: a key given once holds a text, a key that
  is repeated holds the list of its texts (Node's \<^verbatim>\<open>querystring\<close>; parsers that build
  nested objects from bracketed keys are not modelled). \<^verbatim>\<open>req.params\<close> holds the
  texts the route pattern captured from the path, and \<^verbatim>\<open>req.body\<close> is whatever value the
  body parser left there. A property that is missing reads as \<^verbatim>\<open>undefined\<close>.
\<close>

datatype qval = QStr string | QArr "string list"

record request =
  query :: "(string \<times> qval) list"
  params :: "(string \<times> string) list"
  body :: jsval

fun js_of_qval :: "qval \<Rightarrow> jsval" where
  "js_of_qval (QStr s) = JStr s"
| "js_of_qval (QArr xs) = JArr (map JStr xs)"

definition query_prop :: "request \<Rightarrow> string \<Rightarrow> jsval" where
  "query_prop req k = (case map_of (query req) k of None \<Rightarrow> JUndefined | Some v \<Rightarrow> js_of_qval v)"

definition params_prop :: "request \<Rightarrow> string \<Rightarrow> jsval" where
  "params_prop req k = (case map_of (params req) k of None \<Rightarrow> JUndefined | Some s \<Rightarrow> JStr s)"

text \<open>
  \<^verbatim>\<open>const { offset = 0, limit = 25 } = req.query\<close> binds the default where the property is
  \<^verbatim>\<open>undefined\<close>, and the property's own value otherwise. \<^verbatim>\<open>Number\<close> of a number is
  that number; of a text it is \<open>StringToNumber\<close>; of a list of texts it is
  \<open>StringToNumber\<close> of the texts joined by commas (a list is converted by
  \<^verbatim>\<open>Array.prototype.join\<close>).
\<close>

datatype binding = Default jsnum | Given qval

definition destructure :: "request \<Rightarrow> string \<Rightarrow> jsnum \<Rightarrow> binding" where
  "destructure req k d = (case map_of (query req) k of None \<Rightarrow> Default d | Some v \<Rightarrow> Given v)"

fun join :: "string list \<Rightarrow> string" where
  "join [] = []"
| "join [x] = x"
| "join (x # y # ys) = x @ '','' @ join (y # ys)"

fun Number :: "binding \<Rightarrow> jsnum" where
  "Number (Default n) = n"
| "Number (Given (QStr s)) = StringToNumber s"
| "Number (Given (QArr xs)) = StringToNumber (join xs)"

section \<open>Calls out of a handler\<close>

text \<open>
  What a handler does is the sequence of calls it makes on the things it is given: the
  operations of \<^verbatim>\<open>Products\<close> and \<^verbatim>\<open>Orders\<close>, the methods \<^verbatim>\<open>sendFile\<close> and
  \<^verbatim>\<open>json\<close> of the response, and the continuation \<^verbatim>\<open>next\<close> (with the list of its
  arguments, empty for \<^verbatim>\<open>next()\<close>). None of them is code of \<^verbatim>\<open>api.js\<close>, so the
  handlers are modelled for every way these can answer: a \<open>world\<close> gives each call
  either a value (\<open>Inr\<close>: the call returns it, or the promise it returns is fulfilled
  with it) or a reason (\<open>Inl\<close>: the call throws it, or its promise is rejected with it).
  \<^verbatim>\<open>res.json(v)\<close> is the JSON response path: Express serialises \<open>v\<close> as the body.

  An \<^verbatim>\<open>async\<close> function returns a promise, which ends fulfilled or rejected; a failing
  call anywhere in its body rejects the promise with the call's reason and nothing after
  it runs. \<^verbatim>\<open>handleRoot\<close> is the one plain function: it returns or throws.
\<close>

datatype call =
    Products_list jsval
  | Products_get jsval
  | Products_create jsval
  | Products_edit jsval jsval
  | Products_destroy jsval
  | Orders_list jsval
  | Orders_get jsval
  | Orders_create jsval
  | Orders_edit jsval jsval
  | Orders_destroy jsval
  | Res_sendFile jsval
  | Res_json jsval
  | Next "jsval list"

type_synonym world = "call \<Rightarrow> jsval + jsval"

datatype outcome = Fulfilled jsval | Rejected jsval | Returned jsval | Thrown jsval

type_synonym run = "call list \<times> outcome"

type_synonym handler = "world \<Rightarrow> request \<Rightarrow> run"

definition perform :: "world \<Rightarrow> call \<Rightarrow> (jsval \<Rightarrow> run) \<Rightarrow> run" where
  "perform w c k =
     (case w c of
        Inl e \<Rightarrow> ([c], Rejected e)
      | Inr v \<Rightarrow> (case k v of (t, r) \<Rightarrow> (c # t, r)))"

definition fulfil :: "jsval \<Rightarrow> run" where
  "fulfil v = ([], Fulfilled v)"

fun is_collaborator :: "call \<Rightarrow> bool" where
  "is_collaborator (Res_sendFile p) = False"
| "is_collaborator (Res_json v) = False"
| "is_collaborator (Next args) = False"
| "is_collaborator c = True"

fun is_next :: "call \<Rightarrow> bool" where
  "is_next (Next args) = True"
| "is_next c = False"

fun is_response :: "call \<Rightarrow> bool" where
  "is_response (Res_sendFile p) = True"
| "is_response (Res_json v) = True"
| "is_response c = False"

section \<open>The handlers of \<^verbatim>\<open>api.js\<close>\<close>

text \<open>\<^verbatim>\<open>handleRoot\<close> sends the file at \<^verbatim>\<open>path.join(__dirname, '/index.html')\<close>; that
  path is a parameter of the model.\<close>

definition handleRoot :: "jsval \<Rightarrow> handler" where
  "handleRoot index_html w req =
     (case w (Res_sendFile index_html) of
        Inl e \<Rightarrow> ([Res_sendFile index_html], Thrown e)
      | Inr v \<Rightarrow> ([Res_sendFile index_html], Returned JUndefined))"

definition listProducts :: handler where
  "listProducts w req =
     (let offset = destructure req ''offset'' (Fin 0);
          limit = destructure req ''limit'' (Fin 25);
          tag = query_prop req ''tag''
      in perform w
           (Products_list (JObj [(''offset'', JNum (Number offset)),
                                 (''limit'', JNum (Number limit)),
                                 (''tag'', tag)]))
           (\<lambda>products. perform w (Res_json products) (\<lambda>r. fulfil JUndefined)))"

definition getProduct :: handler where
  "getProduct w req =
     (let id = params_prop req ''id''
      in perform w (Products_get id)
           (\<lambda>product.
              if \<not> truthy product then perform w (Next []) fulfil
              else perform w (Res_json product) fulfil))"

definition createProduct :: handler where
  "createProduct w req =
     perform w (Products_create (body req))
       (\<lambda>product. perform w (Res_json product) (\<lambda>r. fulfil JUndefined))"

definition editProduct :: handler where
  "editProduct w req =
     (let change = body req
      in perform w (Products_edit (params_prop req ''id'') change)
           (\<lambda>product. perform w (Res_json product) (\<lambda>r. fulfil JUndefined)))"

definition deleteProduct :: handler where
  "deleteProduct w req =
     perform w (Products_destroy (params_prop req ''id''))
       (\<lambda>response. perform w (Res_json response) (\<lambda>r. fulfil JUndefined))"

definition createOrder :: handler where
  "createOrder w req =
     perform w (Orders_create (body req))
       (\<lambda>order. perform w (Res_json order) (\<lambda>r. fulfil JUndefined))"

definition getOrder :: handler where
  "getOrder w req =
     (let id = params_prop req ''id''
      in perform w (Orders_get id)
           (\<lambda>order.
              if \<not> truthy order then perform w (Next []) fulfil
              else perform w (Res_json order) fulfil))"

definition listOrders :: handler where
  "listOrders w req =
     (let offset = destructure req ''offset'' (Fin 0);
          limit = destructure req ''limit'' (Fin 25);
          productId = query_prop req ''productId'';
          status = query_prop req ''status''
      in perform w
           (Orders_list (JObj [(''offset'', JNum (Number offset)),
                               (''limit'', JNum (Number limit)),
                               (''productId'', productId),
                               (''status'', status)]))
           (\<lambda>orders. perform w (Res_json orders) (\<lambda>r. fulfil JUndefined)))"

definition editOrder :: handler where
  "editOrder w req =
     (let change = body req
      in perform w (Orders_edit (params_prop req ''id'') change)
           (\<lambda>order. perform w (Res_json order) (\<lambda>r. fulfil JUndefined)))"

definition deleteOrder :: handler where
  "deleteOrder w req =
     perform w (Orders_destroy (params_prop req ''id''))
       (\<lambda>response. perform w (Res_json response) (\<lambda>r. fulfil JUndefined))"

text \<open>The object literal handed to \<^verbatim>\<open>autoCatch\<close>, in the order it is written.\<close>

definition handlers :: "jsval \<Rightarrow> (string \<times> handler) list" where
  "handlers index_html =
     [(''handleRoot'', handleRoot index_html),
      (''listProducts'', listProducts),
      (''getProduct'', getProduct),
      (''createProduct'', createProduct),
      (''editProduct'', editProduct),
      (''deleteProduct'', deleteProduct),
      (''createOrder'', createOrder),
      (''listOrders'', listOrders),
      (''editOrder'', editOrder),
      (''deleteOrder'', deleteOrder),
      (''getOrder'', getOrder)]"

section \<open>The error-forwarding adapter\<close>

text \<open>
  Modelled from the spec: \<^verbatim>\<open>autoCatch\<close> is required from \<^verbatim>\<open>./lib/auto-catch\<close>, which
  is not among the sources. The specification (section 4.2) gives its contract: from a
  mapping of operation names to handler functions it produces a mapping of the same names
  in which every handler keeps its signature and its behaviour on success, and on
  rejection the adapter takes the rejection reason, invokes the continuation with it
  exactly once and then returns without emitting a response of its own. A run that does
  not end in a rejection is left as it is.
\<close>

definition autoCatch_handler :: "handler \<Rightarrow> handler" where
  "autoCatch_handler h w req =
     (case h w req of
        (t, Rejected e) \<Rightarrow>
          (case w (Next [e]) of
             Inl e' \<Rightarrow> (t @ [Next [e]], Rejected e')
           | Inr v \<Rightarrow> (t @ [Next [e]], Fulfilled JUndefined))
      | (t, r) \<Rightarrow> (t, r))"

text \<open>
  Modelled from the spec: the adapter takes the whole mapping (the function exported by
  \<^verbatim>\<open>./lib/auto-catch\<close>, absent from the sources) and wraps the handler under every
  name, keeping the names.
\<close>

definition autoCatch :: "(string \<times> handler) list \<Rightarrow> (string \<times> handler) list" where
  "autoCatch hs = map (\<lambda>(name, h). (name, autoCatch_handler h)) hs"

text \<open>\<^verbatim>\<open>module.exports = autoCatch({ handleRoot, listProducts, ... })\<close>\<close>

definition module_exports :: "jsval \<Rightarrow> (string \<times> handler) list" where
  "module_exports index_html = autoCatch (handlers index_html)"

section \<open>Vocabulary of the properties\<close>

text \<open>The options objects the two list handlers build, written
  \<^verbatim>\<open>{offset, limit, tag}\<close> and \<^verbatim>\<open>{offset, limit, productId, status}\<close> in the source.\<close>

definition product_options :: "jsnum \<Rightarrow> jsnum \<Rightarrow> jsval \<Rightarrow> jsval" where
  "product_options offset limit tag =
     JObj [(''offset'', JNum offset), (''limit'', JNum limit), (''tag'', tag)]"

definition order_options :: "jsnum \<Rightarrow> jsnum \<Rightarrow> jsval \<Rightarrow> jsval \<Rightarrow> jsval" where
  "order_options offset limit productId status =
     JObj [(''offset'', JNum offset), (''limit'', JNum limit),
           (''productId'', productId), (''status'', status)]"

text \<open>The own keys of an object, and the value read at a key.\<close>

fun own_keys :: "jsval \<Rightarrow> string list" where
  "own_keys (JObj kvs) = map fst kvs"
| "own_keys v = []"

fun property :: "jsval \<Rightarrow> string \<Rightarrow> jsval" where
  "property (JObj kvs) k = (case map_of kvs k of None \<Rightarrow> JUndefined | Some v \<Rightarrow> v)"
| "property v k = JUndefined"

text \<open>The calls of a run, and the first of them.\<close>

definition calls :: "run \<Rightarrow> call list" where
  "calls r = fst r"

definition first_call :: "run \<Rightarrow> call list" where
  "first_call r = take 1 (fst r)"

section \<open>Sample values of the built-in\<close>

lemma StringToNumber_10: "StringToNumber ''10'' = Fin 10"
  by code_simp

lemma StringToNumber_empty: "StringToNumber [] = Fin 0"
  by code_simp

lemma StringToNumber_abc: "StringToNumber ''abc'' = NaN"
  by code_simp

section \<open>What each handler calls\<close>

lemma first_call_perform: "first_call (perform w c k) = [c]"
  by (simp add: first_call_def perform_def split: sum.splits prod.splits)

lemma first_call_listProducts:
  "first_call (listProducts w req) =
     [Products_list (product_options (Number (destructure req ''offset'' (Fin 0)))
        (Number (destructure req ''limit'' (Fin 25))) (query_prop req ''tag''))]"
  by (simp add: listProducts_def Let_def first_call_perform product_options_def)

lemma first_call_listOrders:
  "first_call (listOrders w req) =
     [Orders_list (order_options (Number (destructure req ''offset'' (Fin 0)))
        (Number (destructure req ''limit'' (Fin 25)))
        (query_prop req ''productId'') (query_prop req ''status''))]"
  by (simp add: listOrders_def Let_def first_call_perform order_options_def)

lemma listProducts_resolved:
  "w (Products_list (product_options (Number (destructure req ''offset'' (Fin 0)))
        (Number (destructure req ''limit'' (Fin 25))) (query_prop req ''tag''))) = Inr arr \<Longrightarrow>
   calls (listProducts w req) =
     [Products_list (product_options (Number (destructure req ''offset'' (Fin 0)))
        (Number (destructure req ''limit'' (Fin 25))) (query_prop req ''tag'')), Res_json arr]"
  by (simp add: listProducts_def Let_def calls_def perform_def product_options_def fulfil_def
      split: sum.splits)

lemma listOrders_resolved:
  "w (Orders_list (order_options (Number (destructure req ''offset'' (Fin 0)))
        (Number (destructure req ''limit'' (Fin 25)))
        (query_prop req ''productId'') (query_prop req ''status''))) = Inr arr \<Longrightarrow>
   calls (listOrders w req) =
     [Orders_list (order_options (Number (destructure req ''offset'' (Fin 0)))
        (Number (destructure req ''limit'' (Fin 25)))
        (query_prop req ''productId'') (query_prop req ''status'')), Res_json arr]"
  by (simp add: listOrders_def Let_def calls_def perform_def order_options_def fulfil_def
      split: sum.splits)

section \<open>Pagination parameters\<close>

text \<open>
  C1. When the query holds the texts \<open>ofs\<close> and \<open>lmt\<close> under \<^verbatim>\<open>offset\<close> and
  \<^verbatim>\<open>limit\<close>, the first thing \<^verbatim>\<open>listProducts\<close> and \<^verbatim>\<open>listOrders\<close> do is to call the
  collaborator's \<^verbatim>\<open>list\<close> with \<^verbatim>\<open>offset: Number(ofs)\<close> and \<^verbatim>\<open>limit: Number(lmt)\<close>
  (this holds for every text, numeric or not). For \<^verbatim>\<open>GET /products?tag=shoes&limit=10\<close>
  the call is \<^verbatim>\<open>list({offset: 0, limit: 10, tag: 'shoes'})\<close>, and when it resolves to
  \<open>arr\<close> the handler passes exactly \<open>arr\<close> to \<^verbatim>\<open>res.json\<close> and calls nothing else.
\<close>

theorem list_passes_Number_of_offset_and_limit:
  "(map_of (query req) ''offset'' = Some (QStr ofs) \<and>
    map_of (query req) ''limit'' = Some (QStr lmt) \<longrightarrow>
      first_call (listProducts w req) =
        [Products_list (product_options (Number (Given (QStr ofs))) (Number (Given (QStr lmt)))
           (query_prop req ''tag''))]
    \<and> first_call (listOrders w req) =
        [Orders_list (order_options (Number (Given (QStr ofs))) (Number (Given (QStr lmt)))
           (query_prop req ''productId'') (query_prop req ''status''))])
   \<and> (w (Products_list (product_options (Fin 0) (Fin 10) (JStr ''shoes''))) = Inr arr \<longrightarrow>
      calls (listProducts w
        \<lparr>query = [(''tag'', QStr ''shoes''), (''limit'', QStr ''10'')], params = ps, body = b\<rparr>) =
        [Products_list (product_options (Fin 0) (Fin 10) (JStr ''shoes'')), Res_json arr])"
proof -
  have general:
    "map_of (query req) ''offset'' = Some (QStr ofs) \<Longrightarrow>
     map_of (query req) ''limit'' = Some (QStr lmt) \<Longrightarrow>
      first_call (listProducts w req) =
        [Products_list (product_options (Number (Given (QStr ofs))) (Number (Given (QStr lmt)))
           (query_prop req ''tag''))]
    \<and> first_call (listOrders w req) =
        [Orders_list (order_options (Number (Given (QStr ofs))) (Number (Given (QStr lmt)))
           (query_prop req ''productId'') (query_prop req ''status''))]"
    by (simp add: first_call_listProducts first_call_listOrders destructure_def)
  let ?req = "\<lparr>query = [(''tag'', QStr ''shoes''), (''limit'', QStr ''10'')], params = ps, body = b\<rparr>"
  have opts:
    "product_options (Number (destructure ?req ''offset'' (Fin 0)))
        (Number (destructure ?req ''limit'' (Fin 25))) (query_prop ?req ''tag'')
      = product_options (Fin 0) (Fin 10) (JStr ''shoes'')"
    by (simp add: destructure_def query_prop_def StringToNumber_10)
  have example:
    "w (Products_list (product_options (Fin 0) (Fin 10) (JStr ''shoes''))) = Inr arr \<Longrightarrow>
      calls (listProducts w ?req) =
        [Products_list (product_options (Fin 0) (Fin 10) (JStr ''shoes'')), Res_json arr]"
    using listProducts_resolved [of w ?req arr] by (simp only: opts)
  from general example show ?thesis by blast
qed

theorem list_passes_Number_of_offset_and_limit_witness:
  "first_call (listProducts (\<lambda>c. Inr (JArr []))
      \<lparr>query = [(''offset'', QStr ''10''), (''limit'', QStr ''10'')], params = [],
       body = JUndefined\<rparr>) =
     [Products_list (product_options (Fin 10) (Fin 10) JUndefined)]
   \<and> first_call (listOrders (\<lambda>c. Inr (JArr []))
      \<lparr>query = [(''offset'', QStr ''10''), (''limit'', QStr ''10'')], params = [],
       body = JUndefined\<rparr>) =
     [Orders_list (order_options (Fin 10) (Fin 10) JUndefined JUndefined)]
   \<and> calls (listProducts (\<lambda>c. Inr (JArr []))
      \<lparr>query = [(''tag'', QStr ''shoes''), (''limit'', QStr ''10'')], params = [],
       body = JUndefined\<rparr>) =
     [Products_list (product_options (Fin 0) (Fin 10) (JStr ''shoes'')), Res_json (JArr [])]"
  using list_passes_Number_of_offset_and_limit
    [of "\<lparr>query = [(''offset'', QStr ''10''), (''limit'', QStr ''10'')], params = [],
          body = JUndefined\<rparr>"
        "''10''" "''10''" "\<lambda>c. Inr (JArr [])" "JArr []" "[]" JUndefined]
  by (simp add: StringToNumber_10 query_prop_def)

text \<open>
  C2. When the query has no \<^verbatim>\<open>offset\<close>, both list handlers call \<^verbatim>\<open>list\<close> with
  \<^verbatim>\<open>offset: 0\<close>; when it has no \<^verbatim>\<open>limit\<close>, they call it with \<^verbatim>\<open>limit: 25\<close>. The other
  fields are whatever the rest of the query gives.
\<close>

theorem list_defaults_offset_0_limit_25:
  "(map_of (query req) ''offset'' = None \<longrightarrow>
      first_call (listProducts w req) =
        [Products_list (product_options (Fin 0) (Number (destructure req ''limit'' (Fin 25)))
           (query_prop req ''tag''))]
    \<and> first_call (listOrders w req) =
        [Orders_list (order_options (Fin 0) (Number (destructure req ''limit'' (Fin 25)))
           (query_prop req ''productId'') (query_prop req ''status''))])
   \<and> (map_of (query req) ''limit'' = None \<longrightarrow>
      first_call (listProducts w req) =
        [Products_list (product_options (Number (destructure req ''offset'' (Fin 0))) (Fin 25)
           (query_prop req ''tag''))]
    \<and> first_call (listOrders w req) =
        [Orders_list (order_options (Number (destructure req ''offset'' (Fin 0))) (Fin 25)
           (query_prop req ''productId'') (query_prop req ''status''))])"
  by (simp add: first_call_listProducts first_call_listOrders destructure_def)

theorem list_defaults_offset_0_limit_25_witness:
  "first_call (listProducts (\<lambda>c. Inr (JArr []))
      \<lparr>query = [(''tag'', QStr ''shoes'')], params = [], body = JUndefined\<rparr>) =
     [Products_list (product_options (Fin 0) (Fin 25) (JStr ''shoes''))]
   \<and> first_call (listOrders (\<lambda>c. Inr (JArr []))
      \<lparr>query = [(''tag'', QStr ''shoes'')], params = [], body = JUndefined\<rparr>) =
     [Orders_list (order_options (Fin 0) (Fin 25) JUndefined JUndefined)]"
  using list_defaults_offset_0_limit_25
    [of "\<lparr>query = [(''tag'', QStr ''shoes'')], params = [], body = JUndefined\<rparr>"
        "\<lambda>c. Inr (JArr [])"]
  by (simp add: destructure_def query_prop_def)

text \<open>
  C10. A parameter that is present with the empty text is not replaced by the default
  (the default is bound only where the property is \<^verbatim>\<open>undefined\<close>), and
  \<^verbatim>\<open>Number('')\<close> is \<open>0\<close>: with \<^verbatim>\<open>limit=\<close> in the query both list handlers call
  \<^verbatim>\<open>list\<close> with \<^verbatim>\<open>limit: 0\<close>, not 25, and with \<^verbatim>\<open>offset=\<close> they call it with
  \<^verbatim>\<open>offset: 0\<close>.
\<close>

theorem list_empty_text_is_zero_not_default:
  "(map_of (query req) ''limit'' = Some (QStr []) \<longrightarrow>
      destructure req ''limit'' (Fin 25) = Given (QStr [])
    \<and> first_call (listProducts w req) =
        [Products_list (product_options (Number (destructure req ''offset'' (Fin 0))) (Fin 0)
           (query_prop req ''tag''))]
    \<and> first_call (listOrders w req) =
        [Orders_list (order_options (Number (destructure req ''offset'' (Fin 0))) (Fin 0)
           (query_prop req ''productId'') (query_prop req ''status''))])
   \<and> (map_of (query req) ''offset'' = Some (QStr []) \<longrightarrow>
      destructure req ''offset'' (Fin 0) = Given (QStr [])
    \<and> first_call (listProducts w req) =
        [Products_list (product_options (Fin 0) (Number (destructure req ''limit'' (Fin 25)))
           (query_prop req ''tag''))]
    \<and> first_call (listOrders w req) =
        [Orders_list (order_options (Fin 0) (Number (destructure req ''limit'' (Fin 25)))
           (query_prop req ''productId'') (query_prop req ''status''))])"
  by (simp add: first_call_listProducts first_call_listOrders destructure_def StringToNumber_empty)

theorem list_empty_text_is_zero_not_default_witness:
  "first_call (listProducts (\<lambda>c. Inr (JArr []))
      \<lparr>query = [(''limit'', QStr [])], params = [], body = JUndefined\<rparr>) =
     [Products_list (product_options (Fin 0) (Fin 0) JUndefined)]
   \<and> first_call (listOrders (\<lambda>c. Inr (JArr []))
      \<lparr>query = [(''limit'', QStr [])], params = [], body = JUndefined\<rparr>) =
     [Orders_list (order_options (Fin 0) (Fin 0) JUndefined JUndefined)]
   \<and> first_call (listProducts (\<lambda>c. Inr (JArr []))
      \<lparr>query = [(''offset'', QStr [])], params = [], body = JUndefined\<rparr>) =
     [Products_list (product_options (Fin 0) (Fin 25) JUndefined)]"
  using list_empty_text_is_zero_not_default
    [of "\<lparr>query = [(''limit'', QStr [])], params = [], body = JUndefined\<rparr>"
        "\<lambda>c. Inr (JArr [])"]
    list_empty_text_is_zero_not_default
    [of "\<lparr>query = [(''offset'', QStr [])], params = [], body = JUndefined\<rparr>"
        "\<lambda>c. Inr (JArr [])"]
  by (simp add: destructure_def query_prop_def)

text \<open>
  C6. A text that \<^verbatim>\<open>Number\<close> does not read as a number (\<^verbatim>\<open>'abc'\<close> is one) becomes
  \<^verbatim>\<open>NaN\<close>, and that \<^verbatim>\<open>NaN\<close> is what both list handlers hand to \<^verbatim>\<open>list\<close> as
  \<^verbatim>\<open>offset\<close> or \<^verbatim>\<open>limit\<close>. The handler does not fail on it: when \<^verbatim>\<open>list\<close> resolves
  and \<^verbatim>\<open>res.json\<close> returns, the handler's promise is fulfilled.
\<close>

theorem list_passes_NaN_through:
  "StringToNumber ''abc'' = NaN
   \<and> (map_of (query req) ''offset'' = Some (QStr s) \<and> StringToNumber s = NaN \<longrightarrow>
      first_call (listProducts w req) =
        [Products_list (product_options NaN (Number (destructure req ''limit'' (Fin 25)))
           (query_prop req ''tag''))]
    \<and> first_call (listOrders w req) =
        [Orders_list (order_options NaN (Number (destructure req ''limit'' (Fin 25)))
           (query_prop req ''productId'') (query_prop req ''status''))])
   \<and> (map_of (query req) ''limit'' = Some (QStr s) \<and> StringToNumber s = NaN \<longrightarrow>
      first_call (listProducts w req) =
        [Products_list (product_options (Number (destructure req ''offset'' (Fin 0))) NaN
           (query_prop req ''tag''))]
    \<and> first_call (listOrders w req) =
        [Orders_list (order_options (Number (destructure req ''offset'' (Fin 0))) NaN
           (query_prop req ''productId'') (query_prop req ''status''))])
   \<and> (first_call (listProducts w req) = [c] \<and> w c = Inr arr \<and> w (Res_json arr) = Inr r \<longrightarrow>
      listProducts w req = ([c, Res_json arr], Fulfilled JUndefined))
   \<and> (first_call (listOrders w req) = [c] \<and> w c = Inr arr \<and> w (Res_json arr) = Inr r \<longrightarrow>
      listOrders w req = ([c, Res_json arr], Fulfilled JUndefined))"
proof -
  have coerced:
    "map_of (query req) ''offset'' = Some (QStr s) \<Longrightarrow> StringToNumber s = NaN \<Longrightarrow>
       Number (destructure req ''offset'' (Fin 0)) = NaN"
    "map_of (query req) ''limit'' = Some (QStr s) \<Longrightarrow> StringToNumber s = NaN \<Longrightarrow>
       Number (destructure req ''limit'' (Fin 25)) = NaN"
    by (simp_all add: destructure_def)
  have completes_products:
    "first_call (listProducts w req) = [c] \<Longrightarrow> w c = Inr arr \<Longrightarrow> w (Res_json arr) = Inr r \<Longrightarrow>
      listProducts w req = ([c, Res_json arr], Fulfilled JUndefined)"
    by (simp add: first_call_listProducts)
       (simp add: listProducts_def Let_def perform_def fulfil_def product_options_def)
  have completes_orders:
    "first_call (listOrders w req) = [c] \<Longrightarrow> w c = Inr arr \<Longrightarrow> w (Res_json arr) = Inr r \<Longrightarrow>
      listOrders w req = ([c, Res_json arr], Fulfilled JUndefined)"
    by (simp add: first_call_listOrders)
       (simp add: listOrders_def Let_def perform_def fulfil_def order_options_def)
  show ?thesis
    using coerced completes_products completes_orders
    by (simp add: first_call_listProducts first_call_listOrders StringToNumber_abc)
qed

theorem list_passes_NaN_through_witness:
  "listProducts (\<lambda>c. Inr (JArr []))
      \<lparr>query = [(''offset'', QStr ''abc'')], params = [], body = JUndefined\<rparr> =
     ([Products_list (product_options NaN (Fin 25) JUndefined), Res_json (JArr [])],
      Fulfilled JUndefined)
   \<and> listOrders (\<lambda>c. Inr (JArr []))
      \<lparr>query = [(''limit'', QStr ''abc'')], params = [], body = JUndefined\<rparr> =
     ([Orders_list (order_options (Fin 0) NaN JUndefined JUndefined), Res_json (JArr [])],
      Fulfilled JUndefined)"
  using list_passes_NaN_through
    [of "\<lparr>query = [(''offset'', QStr ''abc'')], params = [], body = JUndefined\<rparr>" "''abc''"
        "\<lambda>c. Inr (JArr [])" "Products_list (product_options NaN (Fin 25) JUndefined)" "JArr []"
        "JArr []"]
    list_passes_NaN_through
    [of "\<lparr>query = [(''limit'', QStr ''abc'')], params = [], body = JUndefined\<rparr>" "''abc''"
        "\<lambda>c. Inr (JArr [])" "Orders_list (order_options (Fin 0) NaN JUndefined JUndefined)"
        "JArr []" "JArr []"]
  by (simp add: destructure_def query_prop_def)

text \<open>
  C8. The options object that a list handler passes always has the filter fields among
  its own keys: \<^verbatim>\<open>offset\<close>, \<^verbatim>\<open>limit\<close>, \<^verbatim>\<open>tag\<close> for \<^verbatim>\<open>listProducts\<close>, and
  \<^verbatim>\<open>offset\<close>, \<^verbatim>\<open>limit\<close>, \<^verbatim>\<open>productId\<close>, \<^verbatim>\<open>status\<close> for \<^verbatim>\<open>listOrders\<close>. A filter
  that the query does not have is there with the value \<^verbatim>\<open>undefined\<close>.
\<close>

theorem list_options_always_have_filter_keys:
  "(\<exists>opts. first_call (listProducts w req) = [Products_list opts]
      \<and> own_keys opts = [''offset'', ''limit'', ''tag'']
      \<and> (map_of (query req) ''tag'' = None \<longrightarrow> property opts ''tag'' = JUndefined))
   \<and> (\<exists>opts. first_call (listOrders w req) = [Orders_list opts]
      \<and> own_keys opts = [''offset'', ''limit'', ''productId'', ''status'']
      \<and> (map_of (query req) ''productId'' = None \<longrightarrow> property opts ''productId'' = JUndefined)
      \<and> (map_of (query req) ''status'' = None \<longrightarrow> property opts ''status'' = JUndefined))"
  by (simp add: first_call_listProducts first_call_listOrders product_options_def
      order_options_def query_prop_def)

theorem list_options_always_have_filter_keys_witness:
  "(\<exists>opts. first_call (listProducts (\<lambda>c. Inr (JArr []))
        \<lparr>query = [], params = [], body = JUndefined\<rparr>) = [Products_list opts]
      \<and> own_keys opts = [''offset'', ''limit'', ''tag'']
      \<and> property opts ''tag'' = JUndefined)
   \<and> (\<exists>opts. first_call (listOrders (\<lambda>c. Inr (JArr []))
        \<lparr>query = [], params = [], body = JUndefined\<rparr>) = [Orders_list opts]
      \<and> own_keys opts = [''offset'', ''limit'', ''productId'', ''status'']
      \<and> property opts ''productId'' = JUndefined
      \<and> property opts ''status'' = JUndefined)"
  using list_options_always_have_filter_keys
    [of "\<lambda>c. Inr (JArr [])" "\<lparr>query = [], params = [], body = JUndefined\<rparr>"]
  by simp

section \<open>Get, create, edit and delete\<close>

text \<open>
  C3. When \<^verbatim>\<open>get(id)\<close> resolves to a falsy value, \<^verbatim>\<open>getProduct\<close> and \<^verbatim>\<open>getOrder\<close>
  make exactly two calls: the \<^verbatim>\<open>get\<close> and then \<^verbatim>\<open>next()\<close> with no argument. No call
  of \<^verbatim>\<open>res.json\<close> is among them. For \<^verbatim>\<open>GET /products/42\<close> with \<^verbatim>\<open>get('42')\<close>
  resolving to \<^verbatim>\<open>null\<close> the calls are \<^verbatim>\<open>Products.get('42')\<close> and \<^verbatim>\<open>next()\<close>.
\<close>

theorem get_falsy_defers_to_next:
  "(w (Products_get (params_prop req ''id'')) = Inr v \<and> \<not> truthy v \<longrightarrow>
      calls (getProduct w req) = [Products_get (params_prop req ''id''), Next []])
   \<and> (w (Orders_get (params_prop req ''id'')) = Inr v \<and> \<not> truthy v \<longrightarrow>
      calls (getOrder w req) = [Orders_get (params_prop req ''id''), Next []])
   \<and> (w (Products_get (JStr ''42'')) = Inr JNull \<longrightarrow>
      calls (getProduct w \<lparr>query = q, params = [(''id'', ''42'')], body = b\<rparr>) =
        [Products_get (JStr ''42''), Next []])"
  by (simp add: getProduct_def getOrder_def Let_def perform_def calls_def fulfil_def
      params_prop_def split: sum.splits)

theorem get_falsy_defers_to_next_witness:
  "calls (getProduct (\<lambda>c. Inr JNull) \<lparr>query = [], params = [(''id'', ''42'')], body = JUndefined\<rparr>) =
     [Products_get (JStr ''42''), Next []]
   \<and> calls (getOrder (\<lambda>c. Inr JNull) \<lparr>query = [], params = [(''id'', ''42'')], body = JUndefined\<rparr>) =
     [Orders_get (JStr ''42''), Next []]"
  using get_falsy_defers_to_next
    [of "\<lambda>c. Inr JNull" "\<lparr>query = [], params = [(''id'', ''42'')], body = JUndefined\<rparr>" JNull
        "[]" JUndefined]
  by (simp add: params_prop_def)

text \<open>
  C5. When \<^verbatim>\<open>get(id)\<close> resolves to a truthy value \<open>v\<close>, \<^verbatim>\<open>getProduct\<close> and
  \<^verbatim>\<open>getOrder\<close> make exactly two calls: the \<^verbatim>\<open>get\<close> and then \<^verbatim>\<open>res.json(v)\<close> with
  that same \<open>v\<close>. \<^verbatim>\<open>next\<close> is not called.
\<close>

theorem get_truthy_responds_with_value:
  "(w (Products_get (params_prop req ''id'')) = Inr v \<and> truthy v \<longrightarrow>
      calls (getProduct w req) = [Products_get (params_prop req ''id''), Res_json v])
   \<and> (w (Orders_get (params_prop req ''id'')) = Inr v \<and> truthy v \<longrightarrow>
      calls (getOrder w req) = [Orders_get (params_prop req ''id''), Res_json v])"
  by (simp add: getProduct_def getOrder_def Let_def perform_def calls_def fulfil_def
      split: sum.splits)

theorem get_truthy_responds_with_value_witness:
  "calls (getProduct (\<lambda>c. Inr (JObj [(''name'', JStr ''shoe'')]))
      \<lparr>query = [], params = [(''id'', ''42'')], body = JUndefined\<rparr>) =
     [Products_get (JStr ''42''), Res_json (JObj [(''name'', JStr ''shoe'')])]
   \<and> calls (getOrder (\<lambda>c. Inr (JObj [(''name'', JStr ''shoe'')]))
      \<lparr>query = [], params = [(''id'', ''42'')], body = JUndefined\<rparr>) =
     [Orders_get (JStr ''42''), Res_json (JObj [(''name'', JStr ''shoe'')])]"
  using get_truthy_responds_with_value
    [of "\<lambda>c. Inr (JObj [(''name'', JStr ''shoe'')])"
        "\<lparr>query = [], params = [(''id'', ''42'')], body = JUndefined\<rparr>"
        "JObj [(''name'', JStr ''shoe'')]"]
  by (simp add: params_prop_def)

text \<open>
  C7. \<^verbatim>\<open>createProduct\<close> and \<^verbatim>\<open>createOrder\<close> first call \<^verbatim>\<open>create\<close> with
  \<^verbatim>\<open>req.body\<close> as it is, whatever it is, and when that resolves to \<open>v\<close> they pass
  \<open>v\<close> to \<^verbatim>\<open>res.json\<close> and call nothing else. For \<^verbatim>\<open>POST /orders\<close> with the body
  \<^verbatim>\<open>{productId: '42', qty: 3}\<close> the calls are \<^verbatim>\<open>Orders.create\<close> of that object and
  \<^verbatim>\<open>res.json\<close> of the created order.
\<close>

theorem create_passes_body_and_responds_with_result:
  "first_call (createProduct w req) = [Products_create (body req)]
   \<and> first_call (createOrder w req) = [Orders_create (body req)]
   \<and> (w (Products_create (body req)) = Inr v \<longrightarrow>
      calls (createProduct w req) = [Products_create (body req), Res_json v])
   \<and> (w (Orders_create (body req)) = Inr v \<longrightarrow>
      calls (createOrder w req) = [Orders_create (body req), Res_json v])
   \<and> (w (Orders_create (JObj [(''productId'', JStr ''42''), (''qty'', JNum (Fin 3))])) = Inr created \<longrightarrow>
      calls (createOrder w
        \<lparr>query = q, params = ps,
         body = JObj [(''productId'', JStr ''42''), (''qty'', JNum (Fin 3))]\<rparr>) =
        [Orders_create (JObj [(''productId'', JStr ''42''), (''qty'', JNum (Fin 3))]),
         Res_json created])"
  by (simp add: createProduct_def createOrder_def first_call_perform)
     (simp add: perform_def calls_def fulfil_def split: sum.splits)

theorem create_passes_body_and_responds_with_result_witness:
  "calls (createOrder (\<lambda>c. Inr (JObj [(''id'', JStr ''o1'')]))
      \<lparr>query = [], params = [],
       body = JObj [(''productId'', JStr ''42''), (''qty'', JNum (Fin 3))]\<rparr>) =
     [Orders_create (JObj [(''productId'', JStr ''42''), (''qty'', JNum (Fin 3))]),
      Res_json (JObj [(''id'', JStr ''o1'')])]
   \<and> calls (createProduct (\<lambda>c. Inr (JObj [(''id'', JStr ''o1'')]))
      \<lparr>query = [], params = [], body = JStr ''anything''\<rparr>) =
     [Products_create (JStr ''anything''), Res_json (JObj [(''id'', JStr ''o1'')])]"
  using create_passes_body_and_responds_with_result
    [of "\<lambda>c. Inr (JObj [(''id'', JStr ''o1'')])"
        "\<lparr>query = [], params = [], body = JStr ''anything''\<rparr>"
        "JObj [(''id'', JStr ''o1'')]" "JObj [(''id'', JStr ''o1'')]" "[]" "[]"]
  by simp

text \<open>
  C9. When \<^verbatim>\<open>edit\<close> or \<^verbatim>\<open>destroy\<close> resolves to \<open>v\<close>, whatever \<open>v\<close> is (falsy
  values included), the handlers \<^verbatim>\<open>editProduct\<close>, \<^verbatim>\<open>deleteProduct\<close>, \<^verbatim>\<open>editOrder\<close>
  and \<^verbatim>\<open>deleteOrder\<close> make exactly two calls: the collaborator's operation and then
  \<^verbatim>\<open>res.json(v)\<close>. \<^verbatim>\<open>next\<close> is not among them, so there is no not-found deferral.
\<close>

theorem edit_and_delete_respond_with_any_result:
  "(w (Products_edit (params_prop req ''id'') (body req)) = Inr v \<longrightarrow>
      calls (editProduct w req) = [Products_edit (params_prop req ''id'') (body req), Res_json v])
   \<and> (w (Products_destroy (params_prop req ''id'')) = Inr v \<longrightarrow>
      calls (deleteProduct w req) = [Products_destroy (params_prop req ''id''), Res_json v])
   \<and> (w (Orders_edit (params_prop req ''id'') (body req)) = Inr v \<longrightarrow>
      calls (editOrder w req) = [Orders_edit (params_prop req ''id'') (body req), Res_json v])
   \<and> (w (Orders_destroy (params_prop req ''id'')) = Inr v \<longrightarrow>
      calls (deleteOrder w req) = [Orders_destroy (params_prop req ''id''), Res_json v])"
  by (simp add: editProduct_def deleteProduct_def editOrder_def deleteOrder_def Let_def
      perform_def calls_def fulfil_def split: sum.splits)

theorem edit_and_delete_respond_with_any_result_witness:
  "calls (editProduct (\<lambda>c. Inr JNull)
      \<lparr>query = [], params = [(''id'', ''7'')], body = JObj [(''price'', JNum (Fin 5))]\<rparr>) =
     [Products_edit (JStr ''7'') (JObj [(''price'', JNum (Fin 5))]), Res_json JNull]
   \<and> calls (deleteProduct (\<lambda>c. Inr JNull)
      \<lparr>query = [], params = [(''id'', ''7'')], body = JObj [(''price'', JNum (Fin 5))]\<rparr>) =
     [Products_destroy (JStr ''7''), Res_json JNull]
   \<and> calls (editOrder (\<lambda>c. Inr JNull)
      \<lparr>query = [], params = [(''id'', ''7'')], body = JObj [(''price'', JNum (Fin 5))]\<rparr>) =
     [Orders_edit (JStr ''7'') (JObj [(''price'', JNum (Fin 5))]), Res_json JNull]
   \<and> calls (deleteOrder (\<lambda>c. Inr JNull)
      \<lparr>query = [], params = [(''id'', ''7'')], body = JObj [(''price'', JNum (Fin 5))]\<rparr>) =
     [Orders_destroy (JStr ''7''), Res_json JNull]"
  using edit_and_delete_respond_with_any_result
    [of "\<lambda>c. Inr JNull"
        "\<lparr>query = [], params = [(''id'', ''7'')], body = JObj [(''price'', JNum (Fin 5))]\<rparr>" JNull]
  by (simp add: params_prop_def)

section \<open>The wrapped handlers\<close>

lemma collaborator_not_next: "is_collaborator c \<Longrightarrow> \<not> is_next c \<and> \<not> is_response c"
  by (cases c) simp_all

lemma perform_rejected_by_collaborator:
  assumes "is_collaborator c'" and "c' \<in> set (calls (perform w c k))" and "w c' = Inl E"
    and "\<And>v. list_all (\<lambda>x. \<not> is_collaborator x) (fst (k v))"
  shows "perform w c k = ([c], Rejected E) \<and> c' = c"
proof (cases "w c")
  case (Inl e)
  with assms show ?thesis by (simp add: perform_def calls_def)
next
  case (Inr v)
  from assms(4) [of v] assms(1) have "c' \<notin> set (fst (k v))"
    by (auto simp: list_all_iff)
  with assms Inr show ?thesis
    by (auto simp: perform_def calls_def split: prod.splits)
qed

lemma tail_json: "list_all (\<lambda>x. \<not> is_collaborator x) (fst (perform w (Res_json v) k'))
    = list_all (\<lambda>x. \<not> is_collaborator x) (case w (Res_json v) of Inl e \<Rightarrow> [] | Inr r \<Rightarrow> fst (k' r))"
  by (simp add: perform_def split: sum.splits prod.splits)

lemma tail_next: "list_all (\<lambda>x. \<not> is_collaborator x) (fst (perform w (Next a) k'))
    = list_all (\<lambda>x. \<not> is_collaborator x) (case w (Next a) of Inl e \<Rightarrow> [] | Inr r \<Rightarrow> fst (k' r))"
  by (simp add: perform_def split: sum.splits prod.splits)

lemma handler_rejected_by_collaborator:
  assumes "map_of (handlers index_html) name = Some h"
    and "is_collaborator c" and "c \<in> set (calls (h w req))" and "w c = Inl E"
  shows "h w req = ([c], Rejected E)"
proof -
  from assms(1) consider
      "h = handleRoot index_html" | "h = listProducts" | "h = getProduct" | "h = createProduct"
    | "h = editProduct" | "h = deleteProduct" | "h = createOrder" | "h = listOrders"
    | "h = editOrder" | "h = deleteOrder" | "h = getOrder"
    by (auto simp: handlers_def split: if_splits)
  then show ?thesis
  proof cases
    case 1
    with assms(2,3) show ?thesis
      by (auto simp: handleRoot_def calls_def split: sum.splits)
  next
    case 2
    with assms(2-4) show ?thesis
      unfolding listProducts_def Let_def
      using perform_rejected_by_collaborator [of c w _ _ E]
      by (fastforce simp: tail_json fulfil_def split: sum.splits)
  next
    case 3
    with assms(2-4) show ?thesis
      unfolding getProduct_def Let_def
      using perform_rejected_by_collaborator [of c w _ _ E]
      by (fastforce simp: tail_json tail_next fulfil_def split: sum.splits)
  next
    case 4
    with assms(2-4) show ?thesis
      unfolding createProduct_def Let_def
      using perform_rejected_by_collaborator [of c w _ _ E]
      by (fastforce simp: tail_json fulfil_def split: sum.splits)
  next
    case 5
    with assms(2-4) show ?thesis
      unfolding editProduct_def Let_def
      using perform_rejected_by_collaborator [of c w _ _ E]
      by (fastforce simp: tail_json fulfil_def split: sum.splits)
  next
    case 6
    with assms(2-4) show ?thesis
      unfolding deleteProduct_def Let_def
      using perform_rejected_by_collaborator [of c w _ _ E]
      by (fastforce simp: tail_json fulfil_def split: sum.splits)
  next
    case 7
    with assms(2-4) show ?thesis
      unfolding createOrder_def Let_def
      using perform_rejected_by_collaborator [of c w _ _ E]
      by (fastforce simp: tail_json fulfil_def split: sum.splits)
  next
    case 8
    with assms(2-4) show ?thesis
      unfolding listOrders_def Let_def
      using perform_rejected_by_collaborator [of c w _ _ E]
      by (fastforce simp: tail_json fulfil_def split: sum.splits)
  next
    case 9
    with assms(2-4) show ?thesis
      unfolding editOrder_def Let_def
      using perform_rejected_by_collaborator [of c w _ _ E]
      by (fastforce simp: tail_json fulfil_def split: sum.splits)
  next
    case 10
    with assms(2-4) show ?thesis
      unfolding deleteOrder_def Let_def
      using perform_rejected_by_collaborator [of c w _ _ E]
      by (fastforce simp: tail_json fulfil_def split: sum.splits)
  next
    case 11
    with assms(2-4) show ?thesis
      unfolding getOrder_def Let_def
      using perform_rejected_by_collaborator [of c w _ _ E]
      by (fastforce simp: tail_json tail_next fulfil_def split: sum.splits)
  qed
qed

lemma autoCatch_handler_rejected:
  assumes "h w req = ([c], Rejected E)" and "is_collaborator c"
  shows "calls (autoCatch_handler h w req) = [c, Next [E]]"
  using assms by (simp add: autoCatch_handler_def calls_def split: sum.splits)

lemma map_of_autoCatch:
  "map_of (autoCatch hs) name = map_option autoCatch_handler (map_of hs name)"
  by (induction hs) (auto simp: autoCatch_def)

lemma names_autoCatch: "map fst (autoCatch hs) = map fst hs"
  by (induction hs) (auto simp: autoCatch_def)

text \<open>
  C4. The exported table has the names of the table it was built from, and under each
  name the wrapped handler. When a call a handler makes on a collaborator is rejected with
  the reason \<open>E\<close>, the wrapped handler calls \<^verbatim>\<open>next\<close> exactly once, with \<open>E\<close>, and
  calls neither \<^verbatim>\<open>res.json\<close> nor \<^verbatim>\<open>res.sendFile\<close>. When the handler succeeds
  (its promise is fulfilled, or the plain function returns), the wrapped handler makes the
  same calls and ends the same way.
\<close>

theorem autoCatch_forwards_collaborator_rejection:
  "map fst (module_exports index_html) = map fst (handlers index_html)
   \<and> (map_of (handlers index_html) name = Some h \<longrightarrow>
        map_of (module_exports index_html) name = Some (autoCatch_handler h)
      \<and> (is_collaborator c \<and> c \<in> set (calls (h w req)) \<and> w c = Inl E \<longrightarrow>
           filter is_next (calls (autoCatch_handler h w req)) = [Next [E]]
         \<and> filter is_response (calls (autoCatch_handler h w req)) = [])
      \<and> (h w req = (t, Fulfilled v) \<or> h w req = (t, Returned v) \<longrightarrow>
           autoCatch_handler h w req = h w req))"
proof -
  have names: "map fst (module_exports index_html) = map fst (handlers index_html)"
    by (simp add: module_exports_def names_autoCatch)
  have wrapped: "map_of (module_exports index_html) name = Some (autoCatch_handler h)"
    if "map_of (handlers index_html) name = Some h"
    using that by (simp add: module_exports_def map_of_autoCatch)
  have rejected:
    "filter is_next (calls (autoCatch_handler h w req)) = [Next [E]]
     \<and> filter is_response (calls (autoCatch_handler h w req)) = []"
    if "map_of (handlers index_html) name = Some h"
      and "is_collaborator c" and "c \<in> set (calls (h w req))" and "w c = Inl E"
  proof -
    from that have "h w req = ([c], Rejected E)"
      by (rule handler_rejected_by_collaborator)
    then have "calls (autoCatch_handler h w req) = [c, Next [E]]"
      using that(2) by (rule autoCatch_handler_rejected)
    with collaborator_not_next [OF that(2)] show ?thesis by simp
  qed
  have success: "autoCatch_handler h w req = h w req"
    if "h w req = (t, Fulfilled v) \<or> h w req = (t, Returned v)"
    using that by (auto simp: autoCatch_handler_def)
  from names wrapped rejected success show ?thesis by blast
qed

theorem autoCatch_forwards_collaborator_rejection_witness:
  "map_of (module_exports (JStr ''/srv/index.html'')) ''getProduct'' = Some (autoCatch_handler getProduct)
   \<and> filter is_next (calls (autoCatch_handler getProduct
        (\<lambda>c. if is_collaborator c then Inl (JError ''storage fault'') else Inr JUndefined)
        \<lparr>query = [], params = [(''id'', ''42'')], body = JUndefined\<rparr>)) =
      [Next [JError ''storage fault'']]
   \<and> filter is_response (calls (autoCatch_handler getProduct
        (\<lambda>c. if is_collaborator c then Inl (JError ''storage fault'') else Inr JUndefined)
        \<lparr>query = [], params = [(''id'', ''42'')], body = JUndefined\<rparr>)) = []
   \<and> autoCatch_handler getProduct (\<lambda>c. Inr (JStr ''shoe''))
        \<lparr>query = [], params = [(''id'', ''42'')], body = JUndefined\<rparr> =
      ([Products_get (JStr ''42''), Res_json (JStr ''shoe'')], Fulfilled (JStr ''shoe''))"
  using autoCatch_forwards_collaborator_rejection
    [of "JStr ''/srv/index.html''" "''getProduct''" getProduct "Products_get (JStr ''42'')"
        "\<lambda>c. if is_collaborator c then Inl (JError ''storage fault'') else Inr JUndefined"
        "\<lparr>query = [], params = [(''id'', ''42'')], body = JUndefined\<rparr>"
        "JError ''storage fault''" "[]" JUndefined]
    autoCatch_forwards_collaborator_rejection
    [of "JStr ''/srv/index.html''" "''getProduct''" getProduct "Products_get (JStr ''42'')"
        "\<lambda>c. Inr (JStr ''shoe'')"
        "\<lparr>query = [], params = [(''id'', ''42'')], body = JUndefined\<rparr>"
        "JError ''storage fault''" "[Products_get (JStr ''42''), Res_json (JStr ''shoe'')]"
        "JStr ''shoe''"]
  by (simp add: handlers_def getProduct_def perform_def fulfil_def calls_def params_prop_def)

end
